theory Spec2Isabelle
  imports Main "HOL-Library.AList"
begin

section \<open>Values crossing the HTTP boundary\<close>

text \<open>
  The server of \<^verbatim>\<open>examples/react-websocket/src/server/main.ts\<close> is a set of Express route
  handlers over one process-wide store \<^verbatim>\<open>db\<close> and one signing key. Each handler is
  embedded as a function of what it reads (route parameters, request body, the store, the
  clock, the outcome of an I/O call) that returns the calls it makes on \<^verbatim>\<open>res\<close> and
  \<^verbatim>\<open>next\<close>, in order, together with the store it leaves behind when it touches the store.
\<close>

text \<open>
  A request body as \<^verbatim>\<open>express.json()\<close> hands it over: a parsed JSON value. Numbers are
  kept as integers; no handler computes with a number of a body.
\<close>

datatype jsonv =
    JNull
  | JBool bool
  | JNum int
  | JStr string
  | JArr "jsonv list"
  | JObj "(string \<times> jsonv) list"

text \<open>
  Property access \<^verbatim>\<open>body.k\<close> (here through the destructuring \<^verbatim>\<open>const { title } = req.body\<close>);
  \<open>None\<close> is JavaScript's \<^verbatim>\<open>undefined\<close>. The parser in its default strict mode delivers objects
  and arrays only, and an array has no property \<^verbatim>\<open>title\<close>.
\<close>

fun property :: "jsonv \<Rightarrow> string \<Rightarrow> jsonv option" where
  "property (JObj fields) k = map_of fields k"
| "property _ k = None"

text \<open>The \<^verbatim>\<open>typeof\<close> operator on a value that may be \<^verbatim>\<open>undefined\<close>.\<close>

fun typeof :: "jsonv option \<Rightarrow> string" where
  "typeof None = ''undefined''"
| "typeof (Some JNull) = ''object''"
| "typeof (Some (JBool b)) = ''boolean''"
| "typeof (Some (JNum n)) = ''number''"
| "typeof (Some (JStr s)) = ''string''"
| "typeof (Some (JArr xs)) = ''object''"
| "typeof (Some (JObj fs)) = ''object''"

text \<open>
  Modelled from the spec: the type \<^verbatim>\<open>DocMeta\<close> is imported from \<^verbatim>\<open>@blocksuite/store\<close>, whose
  declaration is not part of the sources at hand. The spec gives it as
  \<^verbatim>\<open>{ id: string (unique, primary key), title: string, createdAt/updatedAt: timestamp }\<close>.
  The field \<^verbatim>\<open>id\<close> is named \<open>doc_id\<close> here, since \<open>id\<close> is the identity function of HOL.
\<close>

record DocMeta =
  doc_id :: string
  title :: string
  createdAt :: int
  updatedAt :: int

text \<open>
  Modelled from the spec: \<^verbatim>\<open>Partial<DocMeta>\<close>, the \<^verbatim>\<open>partial\<close> of the store's update, is a
  \<^verbatim>\<open>DocMeta\<close> with every field optional.
\<close>

record DocMeta_partial =
  p_doc_id :: "string option"
  p_title :: "string option"
  p_createdAt :: "int option"
  p_updatedAt :: "int option"

text \<open>The object literal \<^verbatim>\<open>{ title }\<close> of the title route.\<close>

definition title_only :: "string \<Rightarrow> DocMeta_partial" where
  "title_only t = \<lparr>p_doc_id = None, p_title = Some t, p_createdAt = None, p_updatedAt = None\<rparr>"

text \<open>
  The claims of an access token and the token itself. \<^verbatim>\<open>jwt.encodeJwt\<close> and the key import of
  \<^verbatim>\<open>lib0\<close> are external; a token is kept as the key it was signed with and the payload it
  carries, which is what a verifier recovers from it.
\<close>

datatype crypto_key = CryptoKey string

record claims =
  iss :: string
  exp :: int
  yuserid :: string

datatype jwt = EncodeJwt crypto_key claims

fun jwt_claims :: "jwt \<Rightarrow> claims" where
  "jwt_claims (EncodeJwt k c) = c"

text \<open>
  What a handler sends. \<open>Text\<close> is \<^verbatim>\<open>res.send\<close> of a string, \<open>Stringified v\<close> is
  \<^verbatim>\<open>res.send(JSON.stringify(v))\<close> (the serialisation itself is left to the platform),
  \<open>JsonDoc\<close> and \<open>JsonDocs\<close> are \<^verbatim>\<open>res.json\<close> of one record and of a list of records,
  \<open>Token\<close> is \<^verbatim>\<open>res.send\<close> of an encoded token.
\<close>

datatype payload =
    Text string
  | Stringified jsonv
  | JsonDoc DocMeta
  | JsonDocs "DocMeta list"
  | Token jwt

record response =
  status :: nat
  payload :: payload

datatype error = Error string

text \<open>
  The observable calls of a handler: a send on \<^verbatim>\<open>res\<close> that goes out, \<^verbatim>\<open>next(err)\<close>, the
  \<^verbatim>\<open>console.log\<close> of a room's block count, and a send called on a \<^verbatim>\<open>res\<close> whose headers
  have already gone out: \<open>Refused\<close> carries what the call was given; nothing is sent and
  the call throws.
\<close>

datatype event =
    Send response
  | Next error
  | Log string nat
  | Refused payload

text \<open>
  The response the client receives is the first send: once it has gone out, the headers are
  sent and a later send of the same handler cannot replace it.
\<close>

fun response_of :: "event list \<Rightarrow> response option" where
  "response_of [] = None"
| "response_of (Send r # es) = Some r"
| "response_of (e # es) = response_of es"

definition issued_claims :: "event list \<Rightarrow> claims option" where
  "issued_claims es =
     (case response_of es of
        None \<Rightarrow> None
      | Some r \<Rightarrow> (case payload r of Token t \<Rightarrow> Some (jwt_claims t) | _ \<Rightarrow> None))"

section \<open>The Metadata Store\<close>

text \<open>
  Modelled from the spec: the class \<^verbatim>\<open>JSONDatabase\<close> is imported from \<^verbatim>\<open>./db.ts\<close>, which is
  not part of the sources at hand. The spec describes it as a key-value persistence for
  DocMeta records, keyed by the unique \<^verbatim>\<open>id\<close>, with the contract
  \<^verbatim>\<open>getAll() -> list of DocMeta\<close>, \<^verbatim>\<open>get(id) -> DocMeta | absent\<close>,
  \<^verbatim>\<open>add(meta) -> DocMeta | failure\<close>, \<^verbatim>\<open>update(id, partial) -> DocMeta | absent\<close>,
  \<^verbatim>\<open>delete(id) -> boolean\<close>, every mutation persisted to the backing file, and a failed
  file write surfacing as a failure result rather than as an exception.

  The store is an association list from ids to records, in insertion order. The outcome of
  the file write is an input \<open>w\<close> of each mutating operation (\<open>True\<close>: the write succeeds).
  The spec does not say what the store holds after a failed write; here it is left as it
  was. \<open>None\<close> is the \<^verbatim>\<open>null\<close> that the permission route compares with.
\<close>

type_synonym JSONDatabase = "(string \<times> DocMeta) list"

text \<open>
  Modelled from the spec: \<^verbatim>\<open>init(path)\<close> where no file exists yet: the empty store.
\<close>

definition init :: JSONDatabase where
  "init = []"

text \<open>Modelled from the spec: \<^verbatim>\<open>getAll() -> list of DocMeta\<close>.\<close>

definition getDocMetas :: "JSONDatabase \<Rightarrow> DocMeta list" where
  "getDocMetas db = map snd db"

text \<open>Modelled from the spec: \<^verbatim>\<open>get(id) -> DocMeta | absent\<close>.\<close>

definition getDocMeta :: "JSONDatabase \<Rightarrow> string \<Rightarrow> DocMeta option" where
  "getDocMeta db i = map_of db i"

text \<open>
  Modelled from the spec: \<^verbatim>\<open>add(meta) -> DocMeta | failure\<close>. The record is stored under its
  id, in place of a record already there, and returned.
\<close>

definition addDocMeta :: "JSONDatabase \<Rightarrow> bool \<Rightarrow> DocMeta \<Rightarrow> JSONDatabase \<times> DocMeta option" where
  "addDocMeta db w meta =
     (if w then (AList.update (doc_id meta) meta db, Some meta) else (db, None))"

text \<open>
  Modelled from the spec: the record that \<^verbatim>\<open>update(id, partial)\<close> stores, the old one with
  the fields that the partial gives replaced.
\<close>

definition merge :: "DocMeta \<Rightarrow> DocMeta_partial \<Rightarrow> DocMeta" where
  "merge d p =
     \<lparr>doc_id = (case p_doc_id p of None \<Rightarrow> doc_id d | Some x \<Rightarrow> x),
      title = (case p_title p of None \<Rightarrow> title d | Some x \<Rightarrow> x),
      createdAt = (case p_createdAt p of None \<Rightarrow> createdAt d | Some x \<Rightarrow> x),
      updatedAt = (case p_updatedAt p of None \<Rightarrow> updatedAt d | Some x \<Rightarrow> x)\<rparr>"

text \<open>Modelled from the spec: \<^verbatim>\<open>update(id, partial) -> DocMeta | absent\<close>.\<close>

definition updateDocMeta ::
  "JSONDatabase \<Rightarrow> bool \<Rightarrow> string \<Rightarrow> DocMeta_partial \<Rightarrow> JSONDatabase \<times> DocMeta option" where
  "updateDocMeta db w i p =
     (case map_of db i of
        None \<Rightarrow> (db, None)
      | Some d \<Rightarrow>
          if w then (AList.update i (merge d p) db, Some (merge d p)) else (db, None))"

text \<open>Modelled from the spec: \<^verbatim>\<open>delete(id) -> boolean\<close>, false when nothing was deleted.\<close>

definition deleteDocMeta :: "JSONDatabase \<Rightarrow> bool \<Rightarrow> string \<Rightarrow> JSONDatabase \<times> bool" where
  "deleteDocMeta db w i =
     (case map_of db i of
        None \<Rightarrow> (db, False)
      | Some d \<Rightarrow> if w then (AList.delete i db, True) else (db, False))"

text \<open>
  Modelled from the spec: the invariant of the data model, \<^verbatim>\<open>id\<close> is unique and is the
  primary key: an id identifies one record, and a record is stored under its own id.
\<close>

definition db_inv :: "JSONDatabase \<Rightarrow> bool" where
  "db_inv db \<longleftrightarrow> distinct (map fst db) \<and> (\<forall>(k, d) \<in> set db. doc_id d = k)"

section \<open>The route handlers\<close>

definition appName :: string where
  "appName = ''blocksuite-example''"

text \<open>
  \<^verbatim>\<open>app.get('/auth/token', async (_, res) => ...)\<close>. The request is not read; \<open>now\<close> is the
  value of \<^verbatim>\<open>Date.now()\<close>, an integer number of milliseconds.
\<close>

definition get_auth_token :: "crypto_key \<Rightarrow> int \<Rightarrow> 'req \<Rightarrow> event list" where
  "get_auth_token authPrivateKey now req =
     (let token = EncodeJwt authPrivateKey
                    \<lparr>iss = appName, exp = now + 1000 * 60 * 60, yuserid = ''user1''\<rparr>
      in [Send \<lparr>status = 200, payload = Token token\<rparr>])"

text \<open>
  \<^verbatim>\<open>app.use('/ydoc/:room', ...)\<close>. \<^verbatim>\<open>form.parse\<close> calls back with an error or with the fields
  and the files of the multipart body; \<^verbatim>\<open>files\<close> maps a field name to the non-empty array of
  the files uploaded under it. The callback settles the promise \<^verbatim>\<open>ydocUpdate\<close> or leaves it
  pending. \<open>readFile\<close> is \<^verbatim>\<open>fs.readFile\<close>; \<open>blocks_size\<close> stands for applying the update to
  a fresh \<^verbatim>\<open>Y.Doc\<close> and reading the size of its map \<^verbatim>\<open>blocks\<close>, which may throw.
\<close>

type_synonym bytes = "nat list"

record formidable_file =
  filepath :: string

datatype parse_outcome =
    ParseError error
  | ParseOk "(string \<times> string list) list" "(string \<times> formidable_file \<times> formidable_file list) list"

datatype 'a promise = Pending | Resolved 'a | Rejected error

datatype completion = Returned | Threw error | Suspended

definition parse_callback ::
  "(string \<Rightarrow> error + bytes) \<Rightarrow> parse_outcome \<Rightarrow> event list \<times> bytes promise" where
  "parse_callback readFile po =
     (case po of
        ParseError err \<Rightarrow> ([Next err], Rejected err)
      | ParseOk flds files \<Rightarrow>
          (case map_of files ''ydoc'' of
             Some (file, rest) \<Rightarrow>
               ([], case readFile (filepath file) of
                      Inr content \<Rightarrow> Resolved content
                    | Inl e \<Rightarrow> Rejected e)
           | None \<Rightarrow> ([], Pending)))"

definition use_ydoc ::
  "(string \<Rightarrow> error + bytes) \<Rightarrow> (bytes \<Rightarrow> error + nat) \<Rightarrow> string \<Rightarrow> parse_outcome
     \<Rightarrow> event list \<times> completion" where
  "use_ydoc readFile blocks_size room po =
     (let (evs, ydocUpdate) = parse_callback readFile po in
      case ydocUpdate of
        Pending \<Rightarrow> (evs, Suspended)
      | Rejected e \<Rightarrow> (evs, Threw e)
      | Resolved u \<Rightarrow>
          (case blocks_size u of
             Inl e \<Rightarrow> (evs, Threw e)
           | Inr n \<Rightarrow>
               (evs @ [Log room n, Send \<lparr>status = 200, payload = Text ''OK''\<rparr>], Returned)))"

text \<open>\<^verbatim>\<open>app.get('/auth/perm/:room/:userid', ...)\<close>.\<close>

definition get_auth_perm :: "JSONDatabase \<Rightarrow> string \<Rightarrow> string \<Rightarrow> event list" where
  "get_auth_perm db room userid =
     (let yaccess = (if getDocMeta db room = None then ''no-access'' else ''rw'')
      in [Send \<lparr>status = 200,
                payload = Stringified (JObj [(''yroom'', JStr room),
                                             (''yaccess'', JStr yaccess),
                                             (''yuserid'', JStr userid)])\<rparr>])"

text \<open>\<^verbatim>\<open>app.get('/api/docs', ...)\<close>.\<close>

definition get_api_docs :: "JSONDatabase \<Rightarrow> event list" where
  "get_api_docs db = [Send \<lparr>status = 200, payload = JsonDocs (getDocMetas db)\<rparr>]"

text \<open>\<^verbatim>\<open>app.post('/api/docs', ...)\<close>; the body is taken as a \<^verbatim>\<open>DocMeta\<close>, as the source types it.\<close>

definition post_api_docs :: "JSONDatabase \<Rightarrow> bool \<Rightarrow> DocMeta \<Rightarrow> JSONDatabase \<times> event list" where
  "post_api_docs db w newDoc =
     (let (db', result) = addDocMeta db w newDoc in
      case result of
        Some r \<Rightarrow> (db', [Send \<lparr>status = 201, payload = JsonDoc r\<rparr>])
      | None \<Rightarrow> (db', [Send \<lparr>status = 500, payload = Text ''Failed to create document''\<rparr>]))"

text \<open>
  \<^verbatim>\<open>app.patch('/api/docs/:id/title', ...)\<close>. The test \<^verbatim>\<open>typeof title !== 'string'\<close> fails
  exactly for a \<open>JStr\<close>; every other value, and \<^verbatim>\<open>undefined\<close>, returns early.
\<close>

definition patch_api_docs_title ::
  "JSONDatabase \<Rightarrow> bool \<Rightarrow> string \<Rightarrow> jsonv \<Rightarrow> JSONDatabase \<times> event list" where
  "patch_api_docs_title db w i body =
     (case property body ''title'' of
        Some (JStr t) \<Rightarrow>
          (let (db', result) = updateDocMeta db w i (title_only t) in
           case result of
             Some r \<Rightarrow> (db', [Send \<lparr>status = 200, payload = JsonDoc r\<rparr>])
           | None \<Rightarrow> (db', [Send \<lparr>status = 500, payload = Text ''Failed to update document''\<rparr>]))
      | _ \<Rightarrow> (db, [Send \<lparr>status = 400, payload = Text ''Missing title''\<rparr>]))"

text \<open>
  The delete route calls \<^verbatim>\<open>res\<close> twice on one of its paths, so here the state of \<^verbatim>\<open>res\<close> is
  kept: the status code set so far (200 on a fresh \<^verbatim>\<open>res\<close>) and whether the headers have gone
  out. A run is that state, the events so far, and the exception in flight if a call has
  thrown; a call after a throw is not reached.
\<close>

record res =
  statusCode :: nat
  headersSent :: bool

type_synonym run = "res \<times> event list \<times> error option"

definition fresh :: run where
  "fresh = (\<lparr>statusCode = 200, headersSent = False\<rparr>, [], None)"

text \<open>\<^verbatim>\<open>res.status(code)\<close>.\<close>

definition res_status :: "nat \<Rightarrow> run \<Rightarrow> run" where
  "res_status code = (\<lambda>(r, evs, thrown).
     case thrown of
       Some e \<Rightarrow> (r, evs, thrown)
     | None \<Rightarrow> (r\<lparr>statusCode := code\<rparr>, evs, None))"

text \<open>
  \<^verbatim>\<open>res.send(body)\<close> of a string. On a \<^verbatim>\<open>res\<close> whose headers have gone out it sets a header and
  so throws \<^verbatim>\<open>ERR_HTTP_HEADERS_SENT\<close> without sending; otherwise the body goes out under the
  status code of \<^verbatim>\<open>res\<close>.
\<close>

definition res_send :: "string \<Rightarrow> run \<Rightarrow> run" where
  "res_send body = (\<lambda>(r, evs, thrown).
     case thrown of
       Some e \<Rightarrow> (r, evs, thrown)
     | None \<Rightarrow>
         if headersSent r
         then (r, evs @ [Refused (Text body)], Some (Error ''ERR_HTTP_HEADERS_SENT''))
         else (r\<lparr>headersSent := True\<rparr>,
               evs @ [Send \<lparr>status = statusCode r, payload = Text body\<rparr>], None))"

text \<open>
  \<^verbatim>\<open>app.delete('/api/docs/:id', ...)\<close>. The branch of \<^verbatim>\<open>!success\<close> sends and does not return,
  so the last \<^verbatim>\<open>res.send\<close> is called on both paths: on a fresh \<^verbatim>\<open>res\<close> after a successful
  delete, and after \<^verbatim>\<open>res.status(404).send(...)\<close> on the same \<^verbatim>\<open>res\<close> otherwise, where it throws
  and the handler ends with that exception.
\<close>

definition delete_api_docs ::
  "JSONDatabase \<Rightarrow> bool \<Rightarrow> string \<Rightarrow> JSONDatabase \<times> event list \<times> completion" where
  "delete_api_docs db w docId =
     (let (db', success) = deleteDocMeta db w docId;
          after_branch =
            (if \<not> success
             then res_send (''Document '' @ docId @ '' not found'') (res_status 404 fresh)
             else fresh);
          (r, evs, thrown) = res_send (''Document '' @ docId @ '' removed'') after_branch
      in (db', evs, case thrown of None \<Rightarrow> Returned | Some e \<Rightarrow> Threw e))"

text \<open>
  The stores that the server can hold: it starts from the empty store, and only the three
  mutating routes change it.
\<close>

inductive reachable :: "JSONDatabase \<Rightarrow> bool" where
  start: "reachable init"
| post: "reachable db \<Longrightarrow> reachable (fst (post_api_docs db w newDoc))"
| patch: "reachable db \<Longrightarrow> reachable (fst (patch_api_docs_title db w i body))"
| delete: "reachable db \<Longrightarrow> reachable (fst (delete_api_docs db w docId))"

section \<open>Facts about the store\<close>

lemma typeof_string_iff: "typeof v = ''string'' \<longleftrightarrow> (\<exists>s. v = Some (JStr s))"
  by (cases v rule: typeof.cases) simp_all

lemma merge_title_only: "merge d (title_only t) = d\<lparr>title := t\<rparr>"
  by (simp add: merge_def title_only_def)

lemma set_update_cases:
  "p \<in> set (AList.update k v al) \<Longrightarrow> p = (k, v) \<or> p \<in> set al"
  by (induction al) (auto split: if_splits)

text \<open>The invariant holds of the empty store and every route keeps it.\<close>

lemma db_inv_init: "db_inv init"
  by (simp add: db_inv_def init_def)

lemma db_inv_update:
  assumes "db_inv db" and "doc_id v = k"
  shows "db_inv (AList.update k v db)"
  unfolding db_inv_def
proof (intro conjI ballI)
  show "distinct (map fst (AList.update k v db))"
    using assms(1) by (simp add: db_inv_def distinct_update)
next
  fix p assume "p \<in> set (AList.update k v db)"
  then have "p = (k, v) \<or> p \<in> set db" by (rule set_update_cases)
  then show "case p of (k', d) \<Rightarrow> doc_id d = k'"
    using assms by (auto simp: db_inv_def)
qed

lemma db_inv_delete:
  assumes "db_inv db"
  shows "db_inv (AList.delete k db)"
proof -
  have "distinct (map fst (AList.delete k db))"
    using assms by (simp add: db_inv_def distinct_delete)
  moreover have "set (AList.delete k db) \<subseteq> set db"
    by (auto simp: AList.delete_eq)
  ultimately show ?thesis
    using assms unfolding db_inv_def by blast
qed

lemma db_inv_lookup: "db_inv db \<Longrightarrow> map_of db i = Some d \<Longrightarrow> doc_id d = i"
  by (auto simp: db_inv_def dest: map_of_SomeD)

lemma db_inv_post_api_docs: "db_inv db \<Longrightarrow> db_inv (fst (post_api_docs db w newDoc))"
  by (simp add: post_api_docs_def addDocMeta_def db_inv_update)

lemma db_inv_patch_api_docs_title:
  "db_inv db \<Longrightarrow> db_inv (fst (patch_api_docs_title db w i body))"
  by (auto simp: patch_api_docs_title_def updateDocMeta_def merge_title_only
        intro!: db_inv_update dest: db_inv_lookup
        split: option.splits jsonv.splits)

lemma db_inv_delete_api_docs: "db_inv db \<Longrightarrow> db_inv (fst (delete_api_docs db w docId))"
  by (simp add: delete_api_docs_def deleteDocMeta_def db_inv_delete Let_def
        split: option.splits prod.splits)

lemma reachable_db_inv: "reachable db \<Longrightarrow> db_inv db"
proof (induction rule: reachable.induct)
  case start
  show ?case by (rule db_inv_init)
next
  case (post db w newDoc)
  then show ?case by (simp add: db_inv_post_api_docs)
next
  case (patch db w i body)
  then show ?case by (simp add: db_inv_patch_api_docs_title)
next
  case (delete db w docId)
  then show ?case by (simp add: db_inv_delete_api_docs)
qed

text \<open>
  In a store that satisfies the invariant, a record written under its own id occurs once
  among the stored records.
\<close>

lemma count_update_own:
  "distinct (map fst al) \<Longrightarrow> (\<forall>(k', d) \<in> set al. f d = k') \<Longrightarrow> f v = k
     \<Longrightarrow> count_list (map snd (AList.update k v al)) v = 1"
proof (induction al)
  case Nil
  then show ?case by simp
next
  case (Cons p ps)
  show ?case
  proof (cases "fst p = k")
    case True
    have "v \<notin> snd ` set ps"
    proof
      assume "v \<in> snd ` set ps"
      then obtain k' where mem: "(k', v) \<in> set ps" by force
      with Cons.prems have "k' = k" and "k' \<notin> fst ` set ps"
        using True by (auto simp: rev_image_eqI)
      then show False using mem by force
    qed
    then have "count_list (map snd ps) v = 0" by (simp add: count_list_0_iff)
    with True show ?thesis by (cases p) simp
  next
    case False
    with Cons.prems have "snd p \<noteq> v" by (cases p) auto
    with False Cons show ?thesis by (cases p) auto
  qed
qed

text \<open>
  \<^verbatim>\<open>Date.now()\<close> is an integer of at most 8.64e15 in absolute value; one hour later is still
  below \<open>2 ^ 53\<close>, so the addition of the source, on doubles, is the addition of integers.
\<close>

lemma exp_is_exact:
  assumes "\<bar>now\<bar> \<le> 8640000000000000"
  shows "\<bar>exp \<lparr>iss = appName, exp = now + 1000 * 60 * 60, yuserid = ''user1''\<rparr>\<bar> < 2 ^ 53"
  using assms by simp

section \<open>The token route\<close>

text \<open>
  C2. For every request to \<^verbatim>\<open>GET /auth/token\<close>, the token issued carries an \<^verbatim>\<open>exp\<close> claim equal
  to the issuance time plus exactly 3,600,000 milliseconds and an \<^verbatim>\<open>iss\<close> claim equal to the
  service's issuer name; the route always answers, with status 200.
\<close>

theorem get_auth_token_exp_iss:
  "map_option exp (issued_claims (get_auth_token key now req)) = Some (now + 3600000)
   \<and> map_option iss (issued_claims (get_auth_token key now req)) = Some ''blocksuite-example''
   \<and> map_option status (response_of (get_auth_token key now req)) = Some 200"
  by (simp add: get_auth_token_def issued_claims_def appName_def)

text \<open>
  C9. For every pair of requests to \<^verbatim>\<open>GET /auth/token\<close>, whenever they arrive and whatever
  they carry, the \<^verbatim>\<open>yuserid\<close> claim of the issued token is the constant \<^verbatim>\<open>user1\<close>; and what the
  route sends does not depend on the request at all: two requests at the same instant get
  the same token.
\<close>

theorem get_auth_token_yuserid_constant:
  "map_option yuserid (issued_claims (get_auth_token key now1 req1)) = Some ''user1''
   \<and> map_option yuserid (issued_claims (get_auth_token key now2 req2)) = Some ''user1''
   \<and> get_auth_token key now req1 = get_auth_token key now req2"
  by (simp add: get_auth_token_def issued_claims_def)

section \<open>The permission route\<close>

text \<open>
  C1. For every room and userid, \<^verbatim>\<open>GET /auth/perm/:room/:userid\<close> sends once, the object
  \<^verbatim>\<open>{yroom, yaccess, yuserid}\<close> in which \<^verbatim>\<open>yroom\<close> is the requested room, \<^verbatim>\<open>yuserid\<close> the
  requested userid, and \<^verbatim>\<open>yaccess\<close> is \<^verbatim>\<open>rw\<close> when the store has an entry for the room and
  \<^verbatim>\<open>no-access\<close> when it has none.
\<close>

theorem get_auth_perm_access:
  "get_auth_perm db room userid =
     [Send \<lparr>status = 200,
            payload = Stringified (JObj [(''yroom'', JStr room),
              (''yaccess'', JStr (if room \<in> fst ` set db then ''rw'' else ''no-access'')),
              (''yuserid'', JStr userid)])\<rparr>]"
  by (simp add: get_auth_perm_def getDocMeta_def map_of_eq_None_iff)

theorem get_auth_perm_access_witness:
  "get_auth_perm [(''d1'', \<lparr>doc_id = ''d1'', title = ''Notes'', createdAt = 10, updatedAt = 12\<rparr>)]
       ''d1'' ''user1''
     = [Send \<lparr>status = 200,
              payload = Stringified (JObj [(''yroom'', JStr ''d1''), (''yaccess'', JStr ''rw''),
                                           (''yuserid'', JStr ''user1'')])\<rparr>]
   \<and> get_auth_perm [(''d1'', \<lparr>doc_id = ''d1'', title = ''Notes'', createdAt = 10, updatedAt = 12\<rparr>)]
       ''d2'' ''user1''
     = [Send \<lparr>status = 200,
              payload = Stringified (JObj [(''yroom'', JStr ''d2''), (''yaccess'', JStr ''no-access''),
                                           (''yuserid'', JStr ''user1'')])\<rparr>]"
  using get_auth_perm_access [of "[(''d1'', \<lparr>doc_id = ''d1'', title = ''Notes'', createdAt = 10, updatedAt = 12\<rparr>)]" "''d1''" "''user1''"]
        get_auth_perm_access [of "[(''d1'', \<lparr>doc_id = ''d1'', title = ''Notes'', createdAt = 10, updatedAt = 12\<rparr>)]" "''d2''" "''user1''"]
  by simp

section \<open>The upload route\<close>

text \<open>
  C7. For every request to \<^verbatim>\<open>/ydoc/:room\<close> whose multipart body parses and has no attachment
  field named \<^verbatim>\<open>ydoc\<close>, the parse callback ends without resolving or rejecting the promise
  that the handler awaits and without calling \<^verbatim>\<open>next\<close>; nothing after the \<^verbatim>\<open>await\<close> runs, so the
  handler makes no call at all: no response is sent, no error is passed on, nothing is
  logged.
\<close>

theorem ydoc_missing_attachment:
  assumes "''ydoc'' \<notin> fst ` set files"
  shows "use_ydoc readFile blocks_size room (ParseOk flds files) = ([], Suspended)
         \<and> response_of (fst (use_ydoc readFile blocks_size room (ParseOk flds files))) = None"
proof -
  from assms have "map_of files ''ydoc'' = None" by (simp add: map_of_eq_None_iff)
  then show ?thesis by (simp add: use_ydoc_def parse_callback_def)
qed

theorem ydoc_missing_attachment_witness:
  "''ydoc'' \<notin> fst ` set [(''avatar'', (\<lparr>filepath = ''/tmp/upload1''\<rparr>, []))]
   \<and> use_ydoc (\<lambda>p. Inr [1, 2, 3]) (\<lambda>b. Inr (length b)) ''room1''
        (ParseOk [] [(''avatar'', (\<lparr>filepath = ''/tmp/upload1''\<rparr>, []))])
       = ([], Suspended)"
proof -
  have h: "''ydoc'' \<notin> fst ` set [(''avatar'', (\<lparr>filepath = ''/tmp/upload1''\<rparr>, []))]"
    by simp
  show ?thesis
    using h ydoc_missing_attachment
              [OF h, of "\<lambda>p. Inr [1, 2, 3]" "\<lambda>b. Inr (length b)" "''room1''" "[]"]
    by simp
qed

section \<open>The document routes\<close>

text \<open>
  C8. For every body submitted to \<^verbatim>\<open>POST /api/docs\<close>: when the store's add returns a record,
  the route sends status 201 with that record as JSON; when the add reports failure, the
  route sends status 500; and a failed write of the store is such a failure result of the
  add, answered with 500, not an exception.
\<close>

theorem post_api_docs_status:
  "(addDocMeta db w newDoc = (db', Some result) \<longrightarrow>
      post_api_docs db w newDoc = (db', [Send \<lparr>status = 201, payload = JsonDoc result\<rparr>]))
   \<and> (addDocMeta db w newDoc = (db', None) \<longrightarrow>
      post_api_docs db w newDoc
        = (db', [Send \<lparr>status = 500, payload = Text ''Failed to create document''\<rparr>]))
   \<and> (\<not> w \<longrightarrow> snd (addDocMeta db w newDoc) = None
         \<and> map_option status (response_of (snd (post_api_docs db w newDoc))) = Some 500)"
  by (simp add: post_api_docs_def addDocMeta_def)

theorem post_api_docs_status_witness:
  "addDocMeta [] True \<lparr>doc_id = ''d1'', title = ''Notes'', createdAt = 10, updatedAt = 12\<rparr>
     = ([(''d1'', \<lparr>doc_id = ''d1'', title = ''Notes'', createdAt = 10, updatedAt = 12\<rparr>)],
        Some \<lparr>doc_id = ''d1'', title = ''Notes'', createdAt = 10, updatedAt = 12\<rparr>)
   \<and> post_api_docs [] True \<lparr>doc_id = ''d1'', title = ''Notes'', createdAt = 10, updatedAt = 12\<rparr>
     = ([(''d1'', \<lparr>doc_id = ''d1'', title = ''Notes'', createdAt = 10, updatedAt = 12\<rparr>)],
        [Send \<lparr>status = 201,
               payload = JsonDoc \<lparr>doc_id = ''d1'', title = ''Notes'', createdAt = 10, updatedAt = 12\<rparr>\<rparr>])
   \<and> addDocMeta [] False \<lparr>doc_id = ''d1'', title = ''Notes'', createdAt = 10, updatedAt = 12\<rparr>
     = ([], None)
   \<and> post_api_docs [] False \<lparr>doc_id = ''d1'', title = ''Notes'', createdAt = 10, updatedAt = 12\<rparr>
     = ([], [Send \<lparr>status = 500, payload = Text ''Failed to create document''\<rparr>])"
proof -
  let ?d = "\<lparr>doc_id = ''d1'', title = ''Notes'', createdAt = 10, updatedAt = 12\<rparr>"
  have ok: "addDocMeta [] True ?d = ([(''d1'', ?d)], Some ?d)"
    by (simp add: addDocMeta_def)
  have ko: "addDocMeta [] False ?d = ([], None)"
    by (simp add: addDocMeta_def)
  show ?thesis
    using ok ko
      post_api_docs_status [of "[]" True ?d "[(''d1'', ?d)]" ?d]
      post_api_docs_status [of "[]" False ?d "[]" ?d]
    by simp
qed

text \<open>
  C5. For every record successfully created through \<^verbatim>\<open>POST /api/docs\<close> (the route answers 201
  with the record) in a store that satisfies the invariant of the data model, the
  \<^verbatim>\<open>GET /api/docs\<close> that follows answers a list in which that record occurs exactly once.
\<close>

theorem post_then_get_once:
  assumes "db_inv db"
    and "post_api_docs db w newDoc = (db', evs)"
    and "response_of evs = Some \<lparr>status = 201, payload = JsonDoc created\<rparr>"
  shows "\<exists>docs. response_of (get_api_docs db') = Some \<lparr>status = 200, payload = JsonDocs docs\<rparr>
                 \<and> count_list docs created = 1"
proof -
  have w: "w"
    using assms(2,3) by (cases w) (auto simp: post_api_docs_def addDocMeta_def)
  with assms(2,3) have created: "created = newDoc"
    and db': "db' = AList.update (doc_id newDoc) newDoc db"
    by (auto simp: post_api_docs_def addDocMeta_def)
  have "count_list (map snd (AList.update (doc_id newDoc) newDoc db)) newDoc = 1"
    using assms(1) by (intro count_update_own[where f = doc_id]) (auto simp: db_inv_def)
  then show ?thesis
    by (simp add: get_api_docs_def getDocMetas_def created db')
qed

theorem post_then_get_once_witness:
  "db_inv [(''d1'', \<lparr>doc_id = ''d1'', title = ''Notes'', createdAt = 10, updatedAt = 12\<rparr>)]
   \<and> post_api_docs [(''d1'', \<lparr>doc_id = ''d1'', title = ''Notes'', createdAt = 10, updatedAt = 12\<rparr>)]
        True \<lparr>doc_id = ''d2'', title = ''Plan'', createdAt = 20, updatedAt = 20\<rparr>
      = ([(''d1'', \<lparr>doc_id = ''d1'', title = ''Notes'', createdAt = 10, updatedAt = 12\<rparr>),
          (''d2'', \<lparr>doc_id = ''d2'', title = ''Plan'', createdAt = 20, updatedAt = 20\<rparr>)],
         [Send \<lparr>status = 201,
                payload = JsonDoc \<lparr>doc_id = ''d2'', title = ''Plan'', createdAt = 20, updatedAt = 20\<rparr>\<rparr>])
   \<and> (\<exists>docs. response_of (get_api_docs
                  [(''d1'', \<lparr>doc_id = ''d1'', title = ''Notes'', createdAt = 10, updatedAt = 12\<rparr>),
                   (''d2'', \<lparr>doc_id = ''d2'', title = ''Plan'', createdAt = 20, updatedAt = 20\<rparr>)])
                = Some \<lparr>status = 200, payload = JsonDocs docs\<rparr>
              \<and> count_list docs \<lparr>doc_id = ''d2'', title = ''Plan'', createdAt = 20, updatedAt = 20\<rparr> = 1)"
proof -
  let ?d1 = "\<lparr>doc_id = ''d1'', title = ''Notes'', createdAt = 10, updatedAt = 12\<rparr>"
  let ?d2 = "\<lparr>doc_id = ''d2'', title = ''Plan'', createdAt = 20, updatedAt = 20\<rparr>"
  have inv: "db_inv [(''d1'', ?d1)]"
    by (simp add: db_inv_def)
  have post: "post_api_docs [(''d1'', ?d1)] True ?d2
                = ([(''d1'', ?d1), (''d2'', ?d2)], [Send \<lparr>status = 201, payload = JsonDoc ?d2\<rparr>])"
    by (simp add: post_api_docs_def addDocMeta_def)
  have sent: "response_of [Send \<lparr>status = 201, payload = JsonDoc ?d2\<rparr>]
                = Some \<lparr>status = 201, payload = JsonDoc ?d2\<rparr>"
    by simp
  show ?thesis
    using inv post post_then_get_once [OF inv post sent] by simp
qed

text \<open>
  C3. For every id and every body whose \<^verbatim>\<open>title\<close> is not a string (\<^verbatim>\<open>typeof\<close> is not
  \<^verbatim>\<open>'string'\<close>, which includes a missing field), \<^verbatim>\<open>PATCH /api/docs/:id/title\<close> sends status 400
  and returns before any store operation: the store is the one it was.
\<close>

theorem patch_title_not_string:
  assumes "typeof (property body ''title'') \<noteq> ''string''"
  shows "patch_api_docs_title db w i body
           = (db, [Send \<lparr>status = 400, payload = Text ''Missing title''\<rparr>])"
proof (cases "property body ''title''")
  case None
  then show ?thesis by (simp add: patch_api_docs_title_def)
next
  case (Some v)
  with assms show ?thesis by (cases v) (simp_all add: patch_api_docs_title_def)
qed

theorem patch_title_not_string_witness:
  "typeof (property (JObj [(''title'', JNum 7)]) ''title'') \<noteq> ''string''
   \<and> patch_api_docs_title
         [(''d1'', \<lparr>doc_id = ''d1'', title = ''Notes'', createdAt = 10, updatedAt = 12\<rparr>)]
         True ''d1'' (JObj [(''title'', JNum 7)])
       = ([(''d1'', \<lparr>doc_id = ''d1'', title = ''Notes'', createdAt = 10, updatedAt = 12\<rparr>)],
          [Send \<lparr>status = 400, payload = Text ''Missing title''\<rparr>])"
proof -
  have h: "typeof (property (JObj [(''title'', JNum 7)]) ''title'') \<noteq> ''string''"
    by simp
  show ?thesis
    using h patch_title_not_string [OF h] by simp
qed

text \<open>
  C6. For every existing id and every string title, a successful
  \<^verbatim>\<open>PATCH /api/docs/:id/title\<close> (status 200) answers and stores the old record with only its
  title replaced: id and timestamps are the old ones. Every other id has the record it had,
  and the ids of the store, in their order, are the same.
\<close>

theorem patch_title_frame:
  assumes "getDocMeta db i = Some d"
    and "property body ''title'' = Some (JStr t)"
    and "patch_api_docs_title db w i body = (db', evs)"
    and "map_option status (response_of evs) = Some 200"
  shows "response_of evs = Some \<lparr>status = 200, payload = JsonDoc (d\<lparr>title := t\<rparr>)\<rparr>
         \<and> getDocMeta db' i = Some (d\<lparr>title := t\<rparr>)
         \<and> doc_id (d\<lparr>title := t\<rparr>) = doc_id d
         \<and> createdAt (d\<lparr>title := t\<rparr>) = createdAt d
         \<and> updatedAt (d\<lparr>title := t\<rparr>) = updatedAt d
         \<and> (\<forall>k. k \<noteq> i \<longrightarrow> getDocMeta db' k = getDocMeta db k)
         \<and> map fst db' = map fst db"
proof -
  from assms(1) have look: "map_of db i = Some d" by (simp add: getDocMeta_def)
  have w: "w"
    using assms(2,3,4) look
    by (cases w) (auto simp: patch_api_docs_title_def updateDocMeta_def)
  from w look assms(2,3)
  have evs: "evs = [Send \<lparr>status = 200, payload = JsonDoc (d\<lparr>title := t\<rparr>)\<rparr>]"
    and db': "db' = AList.update i (d\<lparr>title := t\<rparr>) db"
    by (auto simp: patch_api_docs_title_def updateDocMeta_def merge_title_only)
  from look have "i \<in> set (map fst db)"
    by (metis map_of_eq_None_iff option.distinct(1) set_map)
  then have keys: "map fst (AList.update i (d\<lparr>title := t\<rparr>) db) = map fst db"
    by (simp add: update_keys)
  show ?thesis
    by (simp add: evs db' keys getDocMeta_def update_conv')
qed

theorem patch_title_frame_witness:
  "getDocMeta [(''d1'', \<lparr>doc_id = ''d1'', title = ''Notes'', createdAt = 10, updatedAt = 12\<rparr>),
               (''d2'', \<lparr>doc_id = ''d2'', title = ''Plan'', createdAt = 20, updatedAt = 20\<rparr>)] ''d2''
     = Some \<lparr>doc_id = ''d2'', title = ''Plan'', createdAt = 20, updatedAt = 20\<rparr>
   \<and> property (JObj [(''title'', JStr ''Plan B'')]) ''title'' = Some (JStr ''Plan B'')
   \<and> patch_api_docs_title
        [(''d1'', \<lparr>doc_id = ''d1'', title = ''Notes'', createdAt = 10, updatedAt = 12\<rparr>),
         (''d2'', \<lparr>doc_id = ''d2'', title = ''Plan'', createdAt = 20, updatedAt = 20\<rparr>)]
        True ''d2'' (JObj [(''title'', JStr ''Plan B'')])
      = ([(''d1'', \<lparr>doc_id = ''d1'', title = ''Notes'', createdAt = 10, updatedAt = 12\<rparr>),
          (''d2'', \<lparr>doc_id = ''d2'', title = ''Plan B'', createdAt = 20, updatedAt = 20\<rparr>)],
         [Send \<lparr>status = 200,
                payload = JsonDoc \<lparr>doc_id = ''d2'', title = ''Plan B'', createdAt = 20, updatedAt = 20\<rparr>\<rparr>])
   \<and> getDocMeta [(''d1'', \<lparr>doc_id = ''d1'', title = ''Notes'', createdAt = 10, updatedAt = 12\<rparr>),
                 (''d2'', \<lparr>doc_id = ''d2'', title = ''Plan B'', createdAt = 20, updatedAt = 20\<rparr>)] ''d1''
       = getDocMeta [(''d1'', \<lparr>doc_id = ''d1'', title = ''Notes'', createdAt = 10, updatedAt = 12\<rparr>),
                     (''d2'', \<lparr>doc_id = ''d2'', title = ''Plan'', createdAt = 20, updatedAt = 20\<rparr>)] ''d1''"
proof -
  let ?d1 = "\<lparr>doc_id = ''d1'', title = ''Notes'', createdAt = 10, updatedAt = 12\<rparr>"
  let ?d2 = "\<lparr>doc_id = ''d2'', title = ''Plan'', createdAt = 20, updatedAt = 20\<rparr>"
  let ?d2' = "\<lparr>doc_id = ''d2'', title = ''Plan B'', createdAt = 20, updatedAt = 20\<rparr>"
  have look: "getDocMeta [(''d1'', ?d1), (''d2'', ?d2)] ''d2'' = Some ?d2"
    by (simp add: getDocMeta_def)
  have str: "property (JObj [(''title'', JStr ''Plan B'')]) ''title'' = Some (JStr ''Plan B'')"
    by simp
  have patch: "patch_api_docs_title [(''d1'', ?d1), (''d2'', ?d2)] True ''d2''
                 (JObj [(''title'', JStr ''Plan B'')])
               = ([(''d1'', ?d1), (''d2'', ?d2')], [Send \<lparr>status = 200, payload = JsonDoc ?d2'\<rparr>])"
    by (simp add: patch_api_docs_title_def updateDocMeta_def merge_def title_only_def)
  have ok: "map_option status (response_of [Send \<lparr>status = 200, payload = JsonDoc ?d2'\<rparr>]) = Some 200"
    by simp
  show ?thesis
    using look str patch patch_title_frame [OF look str patch ok] by simp
qed

text \<open>
  C4. For every id that has no entry in the store, \<^verbatim>\<open>DELETE /api/docs/:id\<close> answers with
  status 404 and the text that the document was not found.
\<close>

theorem delete_absent_404:
  assumes "docId \<notin> fst ` set db"
  shows "response_of (fst (snd (delete_api_docs db w docId)))
           = Some \<lparr>status = 404, payload = Text (''Document '' @ docId @ '' not found'')\<rparr>"
proof -
  from assms have "map_of db docId = None" by (simp add: map_of_eq_None_iff)
  then show ?thesis
    by (simp add: delete_api_docs_def deleteDocMeta_def res_send_def res_status_def fresh_def)
qed

theorem delete_absent_404_witness:
  "''d2'' \<notin> fst ` set [(''d1'', \<lparr>doc_id = ''d1'', title = ''Notes'', createdAt = 10, updatedAt = 12\<rparr>)]
   \<and> response_of (fst (snd (delete_api_docs
         [(''d1'', \<lparr>doc_id = ''d1'', title = ''Notes'', createdAt = 10, updatedAt = 12\<rparr>)]
         True ''d2'')))
       = Some \<lparr>status = 404, payload = Text ''Document d2 not found''\<rparr>"
proof -
  have h: "''d2'' \<notin> fst ` set [(''d1'', \<lparr>doc_id = ''d1'', title = ''Notes'', createdAt = 10, updatedAt = 12\<rparr>)]"
    by simp
  show ?thesis
    using h delete_absent_404 [OF h, of True] by simp
qed

text \<open>
  C10. In the handler of \<^verbatim>\<open>DELETE /api/docs/:id\<close>, when the store's delete reports failure,
  the handler makes the not-found send with status 404 and then, since that branch does not
  return, also calls the send of the removal message that was meant for the success path.
  That second call finds the headers of the same \<^verbatim>\<open>res\<close> already sent: it sends nothing and
  throws, and the handler ends with that exception.
\<close>

theorem delete_failure_falls_through:
  assumes "\<not> snd (deleteDocMeta db w docId)"
  shows "snd (delete_api_docs db w docId)
           = ([Send \<lparr>status = 404, payload = Text (''Document '' @ docId @ '' not found'')\<rparr>,
               Refused (Text (''Document '' @ docId @ '' removed''))],
              Threw (Error ''ERR_HTTP_HEADERS_SENT''))"
  using assms
  by (cases "deleteDocMeta db w docId")
     (simp add: delete_api_docs_def res_send_def res_status_def fresh_def)

theorem delete_failure_falls_through_witness:
  "\<not> snd (deleteDocMeta [] True ''d7'')
   \<and> snd (delete_api_docs [] True ''d7'')
       = ([Send \<lparr>status = 404, payload = Text ''Document d7 not found''\<rparr>,
           Refused (Text ''Document d7 removed'')],
          Threw (Error ''ERR_HTTP_HEADERS_SENT''))"
proof -
  have h: "\<not> snd (deleteDocMeta [] True ''d7'')"
    by (simp add: deleteDocMeta_def)
  show ?thesis
    using h delete_failure_falls_through [OF h] by simp
qed

text \<open>
  On the other path the same call is the only one: after a successful delete the removal
  message goes out with status 200 and the handler returns.
\<close>

lemma delete_success_sends_once:
  assumes "snd (deleteDocMeta db w docId)"
  shows "snd (delete_api_docs db w docId)
           = ([Send \<lparr>status = 200, payload = Text (''Document '' @ docId @ '' removed'')\<rparr>],
              Returned)"
  using assms
  by (cases "deleteDocMeta db w docId")
     (simp add: delete_api_docs_def res_send_def fresh_def)

end
